theory Spec2Isabelle
  imports Main "HOL-Library.Word"
begin

unbundle bit_operations_syntax

section \<open>JavaScript values used by the BLAKE3 module (src/js/vt1.js)\<close>

text \<open>
  Elements of a \<open>Uint8Array\<close> are 8-bit words, elements of a \<open>Uint32Array\<close> are
  32-bit words. JavaScript numbers that hold lengths, offsets and counters are integers;
  the ones that can never be negative are modelled as \<open>nat\<close>. The bitwise operators of
  JavaScript first coerce their operand to a signed 32-bit integer (ToInt32); this is
  written out wherever the operand is not known to be small.
\<close>

type_synonym u8 = "8 word"
type_synonym u32 = "32 word"

definition ToInt32 :: "int \<Rightarrow> int" where
  "ToInt32 x = sint (word_of_int x :: 32 word)"

text \<open>\<open>x >> k\<close> of JavaScript: ToInt32, then an arithmetic shift.\<close>

definition js_sar :: "int \<Rightarrow> nat \<Rightarrow> int" where
  "js_sar x k = ToInt32 x div 2 ^ k"

text \<open>
  Reading a typed array out of range gives \<open>undefined\<close>, which \<open>| 0\<close> and \<open>^\<close>
  turn into 0; writing out of range is ignored. \<open>rdi\<close> is the read at an index that
  may be negative.
\<close>

definition rd :: "u32 list \<Rightarrow> nat \<Rightarrow> u32" where
  "rd xs i = (if i < length xs then xs ! i else 0)"

definition rdi :: "u32 list \<Rightarrow> int \<Rightarrow> u32" where
  "rdi xs i = (if 0 \<le> i then rd xs (nat i) else 0)"

definition rd8 :: "u8 list \<Rightarrow> nat \<Rightarrow> u8" where
  "rd8 xs i = (if i < length xs then xs ! i else 0)"

text \<open>Writing the words \<open>ws\<close> at consecutive indices from \<open>off\<close> (element by element).\<close>

fun wr :: "'a list \<Rightarrow> nat \<Rightarrow> 'a list \<Rightarrow> 'a list" where
  "wr xs off [] = xs"
| "wr xs off (w # ws) = wr (xs[off := w]) (Suc off) ws"

datatype js_error =
    RangeError      \<comment> \<open>thrown by the typed-array constructors and by \<open>TypedArray.set\<close>\<close>
  | KeyLengthError  \<comment> \<open>\<open>Error('Key must be exactly 32 bytes')\<close>\<close>
  | NonTermination  \<comment> \<open>a \<open>while\<close> loop that never exits: the call does not return\<close>
  | BadState        \<comment> \<open>a state the methods never produce (negative position, overfull buffer)\<close>

definition bindE :: "js_error + 'a \<Rightarrow> ('a \<Rightarrow> js_error + 'b) \<Rightarrow> js_error + 'b" where
  "bindE m f = (case m of Inl e \<Rightarrow> Inl e | Inr x \<Rightarrow> f x)"

text \<open>\<open>target.set(src, off)\<close>: throws when the source does not fit.\<close>

definition ta_set :: "u32 list \<Rightarrow> u32 list \<Rightarrow> nat \<Rightarrow> js_error + u32 list" where
  "ta_set target src off =
     (if off + length src \<le> length target then Inr (wr target off src) else Inl RangeError)"

section \<open>Constants\<close>

definition IV :: "u32 list" where
  "IV = [0x6a09e667, 0xbb67ae85, 0x3c6ef372, 0xa54ff53a,
         0x510e527f, 0x9b05688c, 0x1f83d9ab, 0x5be0cd19]"

definition BLOCK_LEN :: nat where "BLOCK_LEN = 64"
definition CHUNK_LEN :: nat where "CHUNK_LEN = 1024"
definition CHUNK_START :: u32 where "CHUNK_START = 1"
definition CHUNK_END :: u32 where "CHUNK_END = 2"
definition PARENT :: u32 where "PARENT = 4"
definition ROOT :: u32 where "ROOT = 8"
definition KEYED_HASH :: u32 where "KEYED_HASH = 16"
definition DERIVE_KEY_CONTEXT :: u32 where "DERIVE_KEY_CONTEXT = 32"
definition DERIVE_KEY_MATERIAL :: u32 where "DERIVE_KEY_MATERIAL = 64"

section \<open>The compression function\<close>

text \<open>
  One quarter round as the source inlines it eight times per round:
  \<open>a = (((a + b) | 0) + mx) | 0; d ^= a; d = (d >>> 16) | (d << 16); c = (c + d) | 0;
  b ^= c; b = (b >>> 12) | (b << 20); a = (((a + b) | 0) + my) | 0; d ^= a;
  d = (d >>> 8) | (d << 24); c = (c + d) | 0; b ^= c; b = (b >>> 7) | (b << 25)\<close>.
\<close>

definition G :: "u32 \<Rightarrow> u32 \<Rightarrow> u32 \<Rightarrow> u32 \<Rightarrow> u32 \<Rightarrow> u32 \<Rightarrow> u32 \<times> u32 \<times> u32 \<times> u32" where
  "G a0 b0 c0 d0 mx my =
    (let a1 = a0 + b0 + mx; d1 = d0 XOR a1; d2 = drop_bit 16 d1 OR push_bit 16 d1;
         c1 = c0 + d2; b1 = b0 XOR c1; b2 = drop_bit 12 b1 OR push_bit 20 b1;
         a2 = a1 + b2 + my; d3 = d2 XOR a2; d4 = drop_bit 8 d3 OR push_bit 24 d3;
         c2 = c1 + d4; b3 = b2 XOR c2; b4 = drop_bit 7 b3 OR push_bit 25 b3
     in (a2, b4, c2, d4))"

type_synonym w16 =
  "u32 \<times> u32 \<times> u32 \<times> u32 \<times> u32 \<times> u32 \<times> u32 \<times> u32 \<times>
   u32 \<times> u32 \<times> u32 \<times> u32 \<times> u32 \<times> u32 \<times> u32 \<times> u32"

text \<open>The body of the round loop without the message permutation.\<close>

fun round_fn :: "w16 \<Rightarrow> w16 \<Rightarrow> w16" where
  "round_fn (s0, s1, s2, s3, s4, s5, s6, s7, s8, s9, s10, s11, s12, s13, s14, s15)
            (m0, m1, m2, m3, m4, m5, m6, m7, m8, m9, m10, m11, m12, m13, m14, m15) =
   (case G s0 s4 s8 s12 m0 m1 of (s0, s4, s8, s12) \<Rightarrow>
    case G s1 s5 s9 s13 m2 m3 of (s1, s5, s9, s13) \<Rightarrow>
    case G s2 s6 s10 s14 m4 m5 of (s2, s6, s10, s14) \<Rightarrow>
    case G s3 s7 s11 s15 m6 m7 of (s3, s7, s11, s15) \<Rightarrow>
    case G s0 s5 s10 s15 m8 m9 of (s0, s5, s10, s15) \<Rightarrow>
    case G s1 s6 s11 s12 m10 m11 of (s1, s6, s11, s12) \<Rightarrow>
    case G s2 s7 s8 s13 m12 m13 of (s2, s7, s8, s13) \<Rightarrow>
    case G s3 s4 s9 s14 m14 m15 of (s3, s4, s9, s14) \<Rightarrow>
      (s0, s1, s2, s3, s4, s5, s6, s7, s8, s9, s10, s11, s12, s13, s14, s15))"

text \<open>The message permutation at the end of the loop body.\<close>

fun permute :: "w16 \<Rightarrow> w16" where
  "permute (t0, t1, t2, t3, t4, t5, t6, t7, t8, t9, t10, t11, t12, t13, t14, t15) =
     (t2, t6, t3, t10, t7, t0, t4, t13, t1, t11, t12, t5, t9, t14, t15, t8)"

text \<open>\<open>for (let r = 0; r < 7; r++)\<close>: \<open>rounds n\<close> runs the loop body \<open>n\<close> times.\<close>

fun rounds :: "nat \<Rightarrow> w16 \<Rightarrow> w16 \<Rightarrow> w16" where
  "rounds 0 s m = s"
| "rounds (Suc n) s m = rounds n (round_fn s m) (permute m)"

text \<open>
  The arithmetic of \<open>compress\<close> on the eight words of the chaining value and the sixteen
  message words it has read; the result is the sixteen output words (the source writes
  the first eight, and the other eight unless \<open>truncateOutput\<close>). The counter is a
  non-negative integer: \<open>counter | 0\<close> is its low word and
  \<open>(counter / 0x100000000) | 0\<close> its high word.
\<close>

definition compress_core :: "u32 list \<Rightarrow> u32 list \<Rightarrow> nat \<Rightarrow> nat \<Rightarrow> u32 \<Rightarrow> u32 list" where
  "compress_core cv m counter blockLen flags =
    (case rounds 7
       (rd cv 0, rd cv 1, rd cv 2, rd cv 3, rd cv 4, rd cv 5, rd cv 6, rd cv 7,
        0x6a09e667, 0xbb67ae85, 0x3c6ef372, 0xa54ff53a,
        word_of_nat counter, word_of_nat (counter div 0x100000000), word_of_nat blockLen, flags)
       (rd m 0, rd m 1, rd m 2, rd m 3, rd m 4, rd m 5, rd m 6, rd m 7,
        rd m 8, rd m 9, rd m 10, rd m 11, rd m 12, rd m 13, rd m 14, rd m 15)
     of (s0, s1, s2, s3, s4, s5, s6, s7, s8, s9, s10, s11, s12, s13, s14, s15) \<Rightarrow>
       [s0 XOR s8, s1 XOR s9, s2 XOR s10, s3 XOR s11,
        s4 XOR s12, s5 XOR s13, s6 XOR s14, s7 XOR s15,
        s8 XOR rd cv 0, s9 XOR rd cv 1, s10 XOR rd cv 2, s11 XOR rd cv 3,
        s12 XOR rd cv 4, s13 XOR rd cv 5, s14 XOR rd cv 6, s15 XOR rd cv 7])"

text \<open>The eight words at \<open>off\<close> and the sixteen words at \<open>off\<close> of a typed array.\<close>

definition rd_cv :: "u32 list \<Rightarrow> nat \<Rightarrow> u32 list" where
  "rd_cv xs off = map (\<lambda>k. rd xs (off + k)) [0..<8]"

definition rd_block :: "u32 list \<Rightarrow> int \<Rightarrow> u32 list" where
  "rd_block xs off = map (\<lambda>k. rdi xs (off + int k)) [0..<16]"

text \<open>
  \<open>compress(cv, cvOffset, m, mOffset, out, outOffset, truncateOutput, counter, blockLen,
  flags)\<close>: the message and the chaining value are read into locals before anything is
  written, so \<open>out\<close> may be the array the inputs come from; the result is the new
  content of \<open>out\<close>. Untruncated calls read \<open>cv\<close> again after the first eight writes;
  the source makes them with a fresh \<open>out\<close> only.
\<close>

definition compress ::
  "u32 list \<Rightarrow> nat \<Rightarrow> u32 list \<Rightarrow> int \<Rightarrow> u32 list \<Rightarrow> nat \<Rightarrow> bool \<Rightarrow> nat \<Rightarrow> nat \<Rightarrow> u32 \<Rightarrow> u32 list" where
  "compress cv cvOffset m mOffset out outOffset truncateOutput counter blockLen flags =
    (let ws = compress_core (rd_cv cv cvOffset) (rd_block m mOffset) counter blockLen flags
     in wr out outOffset (if truncateOutput then take 8 ws else ws))"

text \<open>\<open>wordsToBytes\<close>: every word as four little-endian bytes.\<close>

definition word_bytes :: "u32 \<Rightarrow> u8 list" where
  "word_bytes w = [ucast w, ucast (drop_bit 8 w), ucast (drop_bit 16 w), ucast (drop_bit 24 w)]"

definition wordsToBytes :: "u32 list \<Rightarrow> u8 list" where
  "wordsToBytes ws = concat (map word_bytes ws)"


section \<open>Typed-array views of the input\<close>

text \<open>
  A \<open>Uint8Array\<close>: its elements, its offset in the underlying \<open>ArrayBuffer\<close> and the
  byte length of that buffer. \<open>new Uint8Array(n)\<close> and \<open>TextEncoder.encode\<close> give
  offset 0 and a buffer of exactly the elements.
\<close>

record u8array =
  bytes :: "u8 list"
  byteOffset :: nat
  bufferByteLength :: nat

definition fresh :: "u8 list \<Rightarrow> u8array" where
  "fresh bs = \<lparr>bytes = bs, byteOffset = 0, bufferByteLength = length bs\<rparr>"

text \<open>
  The 32-bit word a \<open>Uint32Array\<close> view shows over four consecutive bytes. Typed arrays
  use the byte order of the host; like the source (\<open>Direct Uint32Array view for aligned
  LE input\<close>) the model takes a little-endian host.
\<close>

definition le32 :: "u8 list \<Rightarrow> nat \<Rightarrow> u32" where
  "le32 bs i = ucast (rd8 bs i) OR push_bit 8 (ucast (rd8 bs (i + 1)))
               OR push_bit 16 (ucast (rd8 bs (i + 2))) OR push_bit 24 (ucast (rd8 bs (i + 3)))"

text \<open>
  \<open>new Uint32Array(input.buffer, input.byteOffset, input.length >> 2)\<close>, made when
  \<open>input.byteOffset % 4 === 0\<close>: a negative length or a view beyond the buffer is a
  RangeError.
\<close>

definition make_inputWords :: "u8array \<Rightarrow> js_error + u32 list option" where
  "make_inputWords input =
     (if byteOffset input mod 4 = 0 then
        (let n = js_sar (int (length (bytes input))) 2 in
         if n < 0 \<or> byteOffset input + 4 * nat n > bufferByteLength input then Inl RangeError
         else Inr (Some (map (\<lambda>j. le32 (bytes input) (4 * j)) [0..<nat n])))
      else Inr None)"

section \<open>Module state\<close>

text \<open>
  The module-level variables of vt1.js that calls share: \<open>blockWords\<close>, the cached
  \<open>cvStack\<close> (\<open>null\<close> at first), the SIMD switch with the WebAssembly memory and the
  four \<open>simdCvs\<close> arrays. \<open>calls\<close> is not in the source: it records
  \<open>(counter, blockLen, flags)\<close> of every compression performed, in order.
\<close>

type_synonym call = "nat \<times> nat \<times> u32"

record module_state =
  blockWords :: "u32 list"
  cvStack_m :: "u32 list option"
  wasmSimdEnabled :: bool
  wasmMem32 :: "u32 list"
  simdCvs :: "u32 list list"
  calls :: "call list"

text \<open>The state after the module is loaded (\<open>initSimd\<close> not called).\<close>

definition module_init :: module_state where
  "module_init = \<lparr>blockWords = replicate 16 0, cvStack_m = None, wasmSimdEnabled = False,
                   wasmMem32 = [], simdCvs = replicate 4 (replicate 8 0), calls = []\<rparr>"

definition getCvStack :: "module_state \<Rightarrow> nat \<Rightarrow> u32 list \<times> module_state" where
  "getCvStack ms n =
     (case cvStack_m ms of
        None \<Rightarrow> (replicate n 0, ms\<lparr>cvStack_m := Some (replicate n 0)\<rparr>)
      | Some st \<Rightarrow>
          if length st < n then (replicate n 0, ms\<lparr>cvStack_m := Some (replicate n 0)\<rparr>)
          else (st, ms))"

section \<open>Loading a block byte by byte\<close>

text \<open>
  \<open>for (let i = 0; i < blockLen; i++) blockWords[i >> 2] |= input[blockStart + i] <<
  ((i & 3) * 8)\<close>.
\<close>

definition or_bytes :: "u32 list \<Rightarrow> u8 list \<Rightarrow> nat \<Rightarrow> nat \<Rightarrow> u32 list" where
  "or_bytes bw input blockStart blockLen =
     foldl (\<lambda>bw i. bw[i div 4 := rd bw (i div 4) OR
                        push_bit ((i mod 4) * 8) (ucast (rd8 input (blockStart + i)))])
           bw [0..<blockLen]"

definition fill0 :: "u32 list \<Rightarrow> u32 list" where
  "fill0 xs = map (\<lambda>_. 0) xs"


section \<open>The streaming hasher (class Hasher)\<close>

text \<open>
  The fields of a \<open>Hasher\<close>. \<open>cvStack\<close> is the JavaScript array used as a stack, written
  here from its top (the last element of the array) to its bottom. \<open>hlog\<close> is not in the
  source: it records \<open>(counter, blockLen, flags)\<close> of the compressions of this object.
\<close>

record hasher =
  keyWords :: "u32 list"
  baseFlags :: u32
  cv :: "u32 list"
  blockBuffer :: "u8 list"
  blockLen :: nat
  chunkLen :: nat
  chunkCounter :: nat
  cvStack :: "u32 list list"
  hlog :: "call list"

text \<open>\<open>keyToWords\<close>: eight little-endian words of a 32-byte key.\<close>

definition keyToWords :: "u8 list \<Rightarrow> js_error + u32 list" where
  "keyToWords key =
     (if length key \<noteq> 32 then Inl KeyLengthError
      else Inr (map (\<lambda>i. le32 key (i * 4)) [0..<8]))"

text \<open>\<open>new Hasher(key, flags)\<close>; \<open>None\<close> is \<open>key = null\<close>.\<close>

definition new_Hasher :: "u8 list option \<Rightarrow> u32 \<Rightarrow> js_error + hasher" where
  "new_Hasher key flags =
     (case key of
        Some k \<Rightarrow>
          bindE (keyToWords k) (\<lambda>kw.
            Inr \<lparr>keyWords = kw,
                 baseFlags = (if flags AND (DERIVE_KEY_CONTEXT OR DERIVE_KEY_MATERIAL) \<noteq> 0
                              then flags else flags OR KEYED_HASH),
                 cv = kw, blockBuffer = replicate BLOCK_LEN 0, blockLen = 0, chunkLen = 0,
                 chunkCounter = 0, cvStack = [], hlog = []\<rparr>)
      | None \<Rightarrow>
          Inr \<lparr>keyWords = IV, baseFlags = flags, cv = IV, blockBuffer = replicate BLOCK_LEN 0,
               blockLen = 0, chunkLen = 0, chunkCounter = 0, cvStack = [], hlog = []\<rparr>)"

text \<open>\<open>createHasher()\<close> is \<open>new Hasher()\<close>.\<close>

definition createHasher :: hasher where
  "createHasher = \<lparr>keyWords = IV, baseFlags = 0, cv = IV, blockBuffer = replicate BLOCK_LEN 0,
                    blockLen = 0, chunkLen = 0, chunkCounter = 0, cvStack = [], hlog = []\<rparr>"

text \<open>The sixteen words \<open>_compressBlock\<close> and \<open>finalize\<close> build from the block buffer.\<close>

definition buffer_words :: "u8 list \<Rightarrow> nat \<Rightarrow> u32 list" where
  "buffer_words buf n = or_bytes (replicate 16 0) buf 0 n"

definition compressBlock :: "hasher \<Rightarrow> bool \<Rightarrow> bool \<Rightarrow> hasher" where
  "compressBlock h isLastBlock isRoot =
     (let flags = baseFlags h OR (if chunkLen h \<le> BLOCK_LEN then CHUNK_START else 0)
                   OR (if isLastBlock then CHUNK_END else 0) OR (if isRoot then ROOT else 0);
          localBlockWords = buffer_words (blockBuffer h) (blockLen h)
      in h\<lparr>cv := compress (cv h) 0 localBlockWords 0 (cv h) 0 True (chunkCounter h) (blockLen h) flags,
            hlog := hlog h @ [(chunkCounter h, blockLen h, flags)]\<rparr>)"

text \<open>\<open>parentBlock.set(left, 0); parentBlock.set(right, 8)\<close> on sixteen zero words.\<close>

definition parentBlock :: "u32 list \<Rightarrow> u32 list \<Rightarrow> u32 list" where
  "parentBlock left right = wr (wr (replicate 16 0) 0 left) 8 right"

text \<open>
  The loop of \<open>_pushChunkCv\<close>:
  \<open>while ((tc & 1) === 0 && this.cvStack.length >= 2) { ...; tc >>= 1 }\<close>.
\<close>

function push_merge :: "int \<Rightarrow> hasher \<Rightarrow> hasher" where
  "push_merge tc h =
     (if tc mod 2 = 0 \<and> length (cvStack h) \<ge> 2 then
        (case cvStack h of
           right # left # rest \<Rightarrow>
             push_merge (js_sar tc 1)
               (h\<lparr>cvStack := take 8 (compress (keyWords h) 0 (parentBlock left right) 0
                                         (replicate 8 0) 0 True 0 BLOCK_LEN (baseFlags h OR PARENT)) # rest,
                  hlog := hlog h @ [(0, BLOCK_LEN, baseFlags h OR PARENT)]\<rparr>)
         | _ \<Rightarrow> h)
      else h)"
  by pat_completeness auto
termination
  by (relation "measure (\<lambda>(tc, h). length (cvStack h))") auto

definition pushChunkCv :: "hasher \<Rightarrow> hasher" where
  "pushChunkCv h =
     (let h1 = h\<lparr>cvStack := cv h # cvStack h, chunkCounter := chunkCounter h + 1\<rparr>
      in push_merge (int (chunkCounter h1)) h1)"

definition startNewChunk :: "hasher \<Rightarrow> hasher" where
  "startNewChunk h = h\<lparr>cv := wr (cv h) 0 (keyWords h), chunkLen := 0\<rparr>"

text \<open>
  The first statement of the loop body of \<open>update\<close>: a full block buffer is compressed
  before more bytes are taken, and a full chunk is closed.
\<close>

definition flush_block :: "hasher \<Rightarrow> hasher" where
  "flush_block h =
     (if blockLen h = BLOCK_LEN then
        (let isLastBlockOfChunk = (chunkLen h = CHUNK_LEN);
             h' = (compressBlock h isLastBlockOfChunk False)\<lparr>blockLen := 0\<rparr>
         in if isLastBlockOfChunk then startNewChunk (pushChunkCv h') else h')
      else h)"

text \<open>\<open>bytesToTake\<close> for a hasher and the number of bytes left in the data.\<close>

definition bytesToTake :: "hasher \<Rightarrow> nat \<Rightarrow> nat" where
  "bytesToTake h remaining =
     (let spaceInBlock = BLOCK_LEN - blockLen h;
          spaceInChunk = CHUNK_LEN - chunkLen h;
          spaceAvailable = min spaceInBlock spaceInChunk
      in min spaceAvailable remaining)"

text \<open>\<open>this.blockBuffer.set(data.subarray(...), this.blockLen)\<close> and the two counters.\<close>

definition absorb :: "hasher \<Rightarrow> u8 list \<Rightarrow> hasher" where
  "absorb h piece =
     h\<lparr>blockBuffer := wr (blockBuffer h) (blockLen h) piece,
       blockLen := blockLen h + length piece,
       chunkLen := chunkLen h + length piece\<rparr>"

text \<open>
  The loop of \<open>update\<close>. With \<open>blockLen > 64\<close> or \<open>chunkLen > 1024\<close>, which no method
  produces, the source would take a non-positive number of bytes; the model stops there.
\<close>

function update_loop :: "u8 list \<Rightarrow> nat \<Rightarrow> hasher \<Rightarrow> js_error + hasher" where
  "update_loop data offset h =
     (if offset < length data then
        (if bytesToTake (flush_block h) (length data - offset) = 0 then Inl BadState
         else update_loop data (offset + bytesToTake (flush_block h) (length data - offset))
                (absorb (flush_block h)
                   (take (bytesToTake (flush_block h) (length data - offset)) (drop offset data))))
      else Inr h)"
  by pat_completeness auto
termination
  by (relation "measure (\<lambda>(data, offset, h). length data - offset)") auto


section \<open>Strings\<close>

text \<open>
  A JavaScript string is a sequence of UTF-16 code units. \<open>new TextEncoder().encode\<close>
  is a function of the platform, not of the repository; it is modelled after its
  standard: code points are decoded from the code units, an unpaired surrogate becoming
  U+FFFD, and each code point is written in UTF-8.
\<close>

type_synonym jsstring = "16 word list"

fun code_points :: "nat list \<Rightarrow> nat list" where
  "code_points [] = []"
| "code_points [u] = [if 0xD800 \<le> u \<and> u < 0xE000 then 0xFFFD else u]"
| "code_points (u # v # us) =
     (if 0xD800 \<le> u \<and> u < 0xDC00 \<and> 0xDC00 \<le> v \<and> v < 0xE000
      then (0x10000 + (u - 0xD800) * 0x400 + (v - 0xDC00)) # code_points us
      else (if 0xD800 \<le> u \<and> u < 0xE000 then 0xFFFD else u) # code_points (v # us))"

definition utf8_of_code_point :: "nat \<Rightarrow> u8 list" where
  "utf8_of_code_point c =
     (if c < 0x80 then [of_nat c]
      else if c < 0x800 then [of_nat (0xC0 + c div 0x40), of_nat (0x80 + c mod 0x40)]
      else if c < 0x10000 then
        [of_nat (0xE0 + c div 0x1000), of_nat (0x80 + c div 0x40 mod 0x40), of_nat (0x80 + c mod 0x40)]
      else
        [of_nat (0xF0 + c div 0x40000), of_nat (0x80 + c div 0x1000 mod 0x40),
         of_nat (0x80 + c div 0x40 mod 0x40), of_nat (0x80 + c mod 0x40)])"

definition TextEncoder_encode :: "jsstring \<Rightarrow> u8array" where
  "TextEncoder_encode str = fresh (concat (map utf8_of_code_point (code_points (map unat str))))"

text \<open>
  What \<open>hash\<close> and \<open>update\<close> are given: a string or a \<open>Uint8Array\<close>. (Other values
  go through \<open>new Uint8Array(input)\<close>, which is left out.)
\<close>

datatype js_input = Str jsstring | Bytes u8array

text \<open>
  \<open>if (typeof input === 'string') input = new TextEncoder().encode(input)\<close>
\<close>

definition to_u8array :: "js_input \<Rightarrow> u8array" where
  "to_u8array input = (case input of Str str \<Rightarrow> TextEncoder_encode str | Bytes a \<Rightarrow> a)"

definition update :: "hasher \<Rightarrow> js_input \<Rightarrow> js_error + hasher" where
  "update h data = update_loop (bytes (to_u8array data)) 0 h"

section \<open>Hasher.finalize\<close>

text \<open>The root node: \<open>rootCv\<close>, \<open>rootBlock\<close>, \<open>rootBlockLen\<close>, \<open>rootFlags\<close>.\<close>

type_synonym root_node = "u32 list \<times> u32 list \<times> nat \<times> u32"

text \<open>
  \<open>while (this.cvStack.length > 1)\<close> of \<open>finalize\<close>: the last merge is not compressed
  but kept as the root node.
\<close>

function finalize_merge :: "hasher \<Rightarrow> root_node option \<Rightarrow> hasher \<times> root_node option" where
  "finalize_merge h root =
     (case cvStack h of
        right # left # rest \<Rightarrow>
          (if rest = [] then
             finalize_merge (h\<lparr>cvStack := []\<rparr>)
               (Some (keyWords h, parentBlock left right, BLOCK_LEN, baseFlags h OR PARENT OR ROOT))
           else
             finalize_merge
               (h\<lparr>cvStack := take 8 (compress (keyWords h) 0 (parentBlock left right) 0
                                         (replicate 8 0) 0 True 0 BLOCK_LEN (baseFlags h OR PARENT)) # rest,
                  hlog := hlog h @ [(0, BLOCK_LEN, baseFlags h OR PARENT)]\<rparr>) root)
      | _ \<Rightarrow> (h, root))"
  by pat_completeness auto
termination
  by (relation "measure (\<lambda>(h, root). length (cvStack h))") auto

text \<open>The root node \<open>finalize\<close> determines, with the hasher as \<open>finalize\<close> leaves it.\<close>

definition finalize_root :: "hasher \<Rightarrow> hasher \<times> root_node option" where
  "finalize_root h =
     (let hasData = (chunkCounter h > 0 \<or> chunkLen h > 0) in
      if \<not> hasData then
        (h, Some (keyWords h, replicate 16 0, 0, baseFlags h OR CHUNK_START OR CHUNK_END OR ROOT))
      else if chunkCounter h = 0 then
        (h, Some (cv h, buffer_words (blockBuffer h) (blockLen h), blockLen h,
                  baseFlags h OR (if chunkLen h \<le> BLOCK_LEN then CHUNK_START else 0)
                    OR CHUNK_END OR ROOT))
      else
        (let h1 = compressBlock h True False;
             h2 = h1\<lparr>cvStack := cv h1 # cvStack h1\<rparr>
         in case finalize_merge h2 None of
              (h3, Some r) \<Rightarrow> (h3, Some r)
            | (h3, None) \<Rightarrow>
                (case cvStack h3 of
                   [onlyCv] \<Rightarrow> (h3, Some (keyWords h3, wr (replicate 16 0) 0 onlyCv, 32,
                                          baseFlags h3 OR PARENT OR ROOT))
                 | _ \<Rightarrow> (h3, None))))"

text \<open>
  The output loop for more than 64 bytes:
  \<open>while (offset < outputLen) { compress(..., counter, ...); ...; offset += 64; counter++ }\<close>.
\<close>

function xof_loop :: "root_node \<Rightarrow> nat \<Rightarrow> nat \<Rightarrow> nat \<Rightarrow> u8 list \<Rightarrow> call list \<Rightarrow> u8 list \<times> call list" where
  "xof_loop root outputLen offset counter result lg =
     (if offset < outputLen then
        (case root of (rootCv, rootBlock, rootBlockLen, rootFlags) \<Rightarrow>
           xof_loop root outputLen (offset + 64) (counter + 1)
             (wr result offset
                (take (min 64 (outputLen - offset))
                   (wordsToBytes (compress rootCv 0 rootBlock 0 (replicate 16 0) 0 False
                                    counter rootBlockLen rootFlags))))
             (lg @ [(counter, rootBlockLen, rootFlags)]))
      else (result, lg))"
  by pat_completeness auto
termination
  by (relation "measure (\<lambda>(root, outputLen, offset, counter, result, lg). outputLen - offset)") auto

definition root_output :: "root_node \<Rightarrow> nat \<Rightarrow> call list \<Rightarrow> u8 list \<times> call list" where
  "root_output root outputLen lg =
     (case root of (rootCv, rootBlock, rootBlockLen, rootFlags) \<Rightarrow>
        if outputLen \<le> 64 then
          (take outputLen (wordsToBytes (compress rootCv 0 rootBlock 0 (replicate 16 0) 0 False
                                           0 rootBlockLen rootFlags)),
           lg @ [(0, rootBlockLen, rootFlags)])
        else xof_loop root outputLen 0 0 (replicate outputLen 0) lg)"

text \<open>
  \<open>finalize(outputLen)\<close>: the output bytes and the hasher afterwards. Without a root
  node the source would read a property of \<open>undefined\<close>; no method leads there.
\<close>

definition finalize :: "hasher \<Rightarrow> nat \<Rightarrow> (js_error + u8 list) \<times> hasher" where
  "finalize h outputLen =
     (case finalize_root h of
        (h', None) \<Rightarrow> (Inl BadState, h')
      | (h', Some root) \<Rightarrow>
          (case root_output root outputLen (hlog h') of
             (out, lg) \<Rightarrow> (Inr out, h'\<lparr>hlog := lg\<rparr>)))"


section \<open>The SIMD chunk engine\<close>

text \<open>
  Modelled from the spec: the WebAssembly function \<open>compressChunks4x\<close>. Its source is
  not in the repository, which only embeds the compiled module as a base64 string. After
  section 4.4 of the specification and the memory layout documented at
  \<open>processChunks4xSimd\<close>, lane \<open>c\<close> chains the sixteen blocks of its chunk (word \<open>w\<close>
  of block \<open>b\<close> at index \<open>b * 64 + w * 4 + c\<close>) from the IV with the counter at index
  \<open>1024 + c\<close>, block length 64, \<open>CHUNK_START\<close> on the first and \<open>CHUNK_END\<close> on the
  last block, and stores word \<open>w\<close> of the result at index \<open>1028 + w * 4 + c\<close>.
\<close>

definition lane_flags :: "nat \<Rightarrow> u32" where
  "lane_flags b = (if b = 0 then CHUNK_START else 0) OR (if b = 15 then CHUNK_END else 0)"

definition lane_block :: "u32 list \<Rightarrow> nat \<Rightarrow> nat \<Rightarrow> u32 list" where
  "lane_block mem c b = map (\<lambda>w. rd mem (b * 64 + w * 4 + c)) [0..<16]"

definition lane_cv :: "u32 list \<Rightarrow> nat \<Rightarrow> u32 list" where
  "lane_cv mem c =
     foldl (\<lambda>v b. take 8 (compress_core v (lane_block mem c b) (unat (rd mem (1024 + c))) 64
                             (lane_flags b)))
           IV [0..<16]"

definition wasmCompress4x :: "u32 list \<Rightarrow> u32 list" where
  "wasmCompress4x mem =
     foldl (\<lambda>mem' (w, c). mem'[1028 + w * 4 + c := rd (lane_cv mem c) w]) mem
           (concat (map (\<lambda>w. map (\<lambda>c. (w, c)) [0..<4]) [0..<8]))"

definition wasm_calls :: "u32 list \<Rightarrow> call list" where
  "wasm_calls mem =
     concat (map (\<lambda>b. map (\<lambda>c. (unat (rd mem (1024 + c)), 64, lane_flags b)) [0..<4]) [0..<16])"

text \<open>
  \<open>processChunks4xSimd(input, inputOffset, baseChunkCounter)\<close>. On the aligned path
  \<open>new Uint32Array(input.buffer, input.byteOffset + inputOffset)\<close> has no length
  argument: it is a RangeError unless the byte length of the buffer is a multiple of 4.
  Both paths store the little-endian word of chunk \<open>c\<close>, block \<open>block\<close>, word \<open>w\<close>
  at \<open>block * 64 + w * 4 + c\<close>.
\<close>

definition transpose_input :: "u32 list \<Rightarrow> u8 list \<Rightarrow> nat \<Rightarrow> u32 list" where
  "transpose_input mem bs inputOffset =
     foldl (\<lambda>mem' (block, w, c).
              mem'[block * 64 + w * 4 + c :=
                     le32 bs (inputOffset + c * CHUNK_LEN + block * BLOCK_LEN + w * 4)])
           mem
           (concat (map (\<lambda>block. concat (map (\<lambda>w. map (\<lambda>c. (block, w, c)) [0..<4]) [0..<16]))
                        [0..<16]))"

definition processChunks4xSimd ::
  "module_state \<Rightarrow> u8array \<Rightarrow> nat \<Rightarrow> nat \<Rightarrow> js_error option \<times> module_state" where
  "processChunks4xSimd ms input inputOffset baseChunkCounter =
     (let inputAligned = ((byteOffset input + inputOffset) mod 4 = 0) in
      if inputAligned \<and> (bufferByteLength input < byteOffset input + inputOffset
                          \<or> bufferByteLength input mod 4 \<noteq> 0)
      then (Some RangeError, ms)
      else
        (let mem1 = transpose_input (wasmMem32 ms) (bytes input) inputOffset;
             mem2 = mem1[1024 := of_nat baseChunkCounter, 1025 := of_nat (baseChunkCounter + 1),
                         1026 := of_nat (baseChunkCounter + 2), 1027 := of_nat (baseChunkCounter + 3)];
             mem3 = wasmCompress4x mem2
         in (None, ms\<lparr>wasmMem32 := mem3,
                      simdCvs := map (\<lambda>c. map (\<lambda>w. rd mem3 (1028 + w * 4 + c)) [0..<8]) [0..<4],
                      calls := calls ms @ wasm_calls mem2\<rparr>)))"

section \<open>The one-shot hash\<close>

text \<open>The local variables of \<open>hash\<close> that its loops change, with the module state.\<close>

record hash_locals =
  l_stack :: "u32 list"
  l_stackPos :: nat
  l_chunkCounter :: nat
  l_ms :: module_state

text \<open>\<open>const flags = 0\<close> in \<open>hash\<close>.\<close>

definition hash_flags :: u32 where "hash_flags = 0"

definition log_call :: "call \<Rightarrow> hash_locals \<Rightarrow> hash_locals" where
  "log_call c l = l\<lparr>l_ms := (l_ms l)\<lparr>calls := calls (l_ms l) @ [c]\<rparr>\<rparr>"

text \<open>
  \<open>stackPos -= 16; compress(IV, 0, stack, stackPos, stack, stackPos, true, 0, BLOCK_LEN,
  flags | PARENT); stackPos += 8\<close>, for \<open>stackPos \<ge> 16\<close>.
\<close>

definition parent_merge :: "hash_locals \<Rightarrow> hash_locals" where
  "parent_merge l =
     (let sp = l_stackPos l - 16 in
      log_call (0, BLOCK_LEN, hash_flags OR PARENT)
        (l\<lparr>l_stack := compress IV 0 (l_stack l) (int sp) (l_stack l) sp True 0 BLOCK_LEN
                         (hash_flags OR PARENT),
           l_stackPos := sp + 8\<rparr>))"

lemma ToInt32_id: "- (2 ^ 31) \<le> x \<Longrightarrow> x < 2 ^ 31 \<Longrightarrow> ToInt32 x = x"
  unfolding ToInt32_def by (simp add: sint_sbintrunc' signed_take_bit_int_eq_self)

lemma ToInt32_range: "- (2 ^ 31) \<le> ToInt32 x" "ToInt32 x < 2 ^ 31"
  using sint_ge [of "word_of_int x :: 32 word"] sint_lt [of "word_of_int x :: 32 word"]
  by (simp_all add: ToInt32_def)

lemma even_ToInt32: "even (ToInt32 x) \<longleftrightarrow> even x"
  unfolding ToInt32_def by (simp add: sint_sbintrunc' even_signed_take_bit_iff)

lemma ToInt32_sar_less:
  assumes "ToInt32 tc \<noteq> 0" and "even tc"
  shows "\<bar>ToInt32 (js_sar tc (Suc 0))\<bar> < \<bar>ToInt32 tc\<bar>"
proof -
  define v where "v = ToInt32 tc"
  have v0: "v \<noteq> 0" using assms by (simp add: v_def)
  have ev: "even v" using assms by (simp add: v_def even_ToInt32)
  have rng: "- (2 ^ 31) \<le> v" "v < 2 ^ 31"
    using ToInt32_range [of tc] by (simp_all add: v_def)
  have "- (2 ^ 31) \<le> v div 2" "v div 2 < 2 ^ 31" using rng by auto
  then have "ToInt32 (v div 2) = v div 2" by (rule ToInt32_id)
  moreover have "\<bar>v div 2\<bar> < \<bar>v\<bar>" using v0 ev by presburger
  ultimately show ?thesis by (simp add: js_sar_def v_def)
qed

text \<open>
  The merge loop of the scalar path:
  \<open>while ((totalChunks & 1) === 0) { ...; totalChunks >>= 1 }\<close>. When the 32-bit value
  of \<open>totalChunks\<close> is 0 the loop has no exit.
\<close>

function merge_while :: "int \<Rightarrow> hash_locals \<Rightarrow> js_error option \<times> hash_locals" where
  "merge_while tc l =
     (if tc mod 2 = 0 then
        (if ToInt32 tc = 0 then (Some NonTermination, l)
         else if l_stackPos l < 16 then (Some BadState, l)
         else merge_while (js_sar tc 1) (parent_merge l))
      else (None, l))"
  by pat_completeness auto
termination
  by (relation "measure (\<lambda>(tc, l). nat \<bar>ToInt32 tc\<bar>)") (auto simp: ToInt32_sar_less)

text \<open>
  The merge loop of the SIMD path:
  \<open>while ((tc & 1) === 0 && stackPos > 8) { if (isLastChunk && stackPos === 16) break; ... }\<close>.
\<close>

function merge_while_simd :: "bool \<Rightarrow> int \<Rightarrow> hash_locals \<Rightarrow> js_error option \<times> hash_locals" where
  "merge_while_simd isLastChunk tc l =
     (if tc mod 2 = 0 \<and> l_stackPos l > 8 then
        (if isLastChunk \<and> l_stackPos l = 16 then (None, l)
         else if l_stackPos l < 16 then (Some BadState, l)
         else merge_while_simd isLastChunk (js_sar tc 1) (parent_merge l))
      else (None, l))"
  by pat_completeness auto
termination
  by (relation "measure (\<lambda>(isLastChunk, tc, l). l_stackPos l)")
     (auto simp: parent_merge_def log_call_def Let_def)


text \<open>
  One iteration of the block loop of the scalar path, for block number \<open>block\<close> of the
  chunk \<open>[chunkStart, chunkEnd)\<close>: a full block of an aligned input is read through the
  \<open>Uint32Array\<close> view at word \<open>blockStart >> 2\<close>, any other block byte by byte into
  \<open>blockWords\<close>.
\<close>

definition block_step ::
  "u8array \<Rightarrow> u32 list option \<Rightarrow> nat \<Rightarrow> nat \<Rightarrow> bool \<Rightarrow> nat \<Rightarrow> nat \<Rightarrow> hash_locals \<Rightarrow> hash_locals" where
  "block_step input inputWords chunkStart chunkEnd isLastChunk numBlocks block l =
     (let blockStart = chunkStart + block * BLOCK_LEN;
          blockEnd = min (blockStart + BLOCK_LEN) chunkEnd;
          blockLen = blockEnd - blockStart;
          isFirstBlock = (block = 0);
          isLastBlockOfChunk = (block = numBlocks - 1);
          blockFlags = hash_flags OR (if isFirstBlock then CHUNK_START else 0)
                         OR (if isLastBlockOfChunk then CHUNK_END else 0)
                         OR (if isLastBlockOfChunk \<and> isLastChunk \<and> l_chunkCounter l = 0 then ROOT else 0)
      in case inputWords of
           Some ws \<Rightarrow>
             if blockLen = BLOCK_LEN \<and> blockStart mod 4 = 0 then
               log_call (l_chunkCounter l, BLOCK_LEN, blockFlags)
                 (l\<lparr>l_stack := compress (l_stack l) (l_stackPos l) ws (js_sar (int blockStart) 2)
                                  (l_stack l) (l_stackPos l) True (l_chunkCounter l) BLOCK_LEN blockFlags\<rparr>)
             else
               (let bw = or_bytes (fill0 (blockWords (l_ms l))) (bytes input) blockStart blockLen in
                log_call (l_chunkCounter l, blockLen, blockFlags)
                  (l\<lparr>l_stack := compress (l_stack l) (l_stackPos l) bw 0
                                   (l_stack l) (l_stackPos l) True (l_chunkCounter l) blockLen blockFlags,
                     l_ms := (l_ms l)\<lparr>blockWords := bw\<rparr>\<rparr>))
         | None \<Rightarrow>
             (let bw = or_bytes (fill0 (blockWords (l_ms l))) (bytes input) blockStart blockLen in
              log_call (l_chunkCounter l, blockLen, blockFlags)
                (l\<lparr>l_stack := compress (l_stack l) (l_stackPos l) bw 0
                                 (l_stack l) (l_stackPos l) True (l_chunkCounter l) blockLen blockFlags,
                   l_ms := (l_ms l)\<lparr>blockWords := bw\<rparr>\<rparr>)))"

text \<open>\<open>for (let block = 0; block < numBlocks; block++)\<close>\<close>

function block_loop ::
  "u8array \<Rightarrow> u32 list option \<Rightarrow> nat \<Rightarrow> nat \<Rightarrow> bool \<Rightarrow> nat \<Rightarrow> nat \<Rightarrow> hash_locals \<Rightarrow> hash_locals" where
  "block_loop input inputWords chunkStart chunkEnd isLastChunk numBlocks block l =
     (if block < numBlocks then
        block_loop input inputWords chunkStart chunkEnd isLastChunk numBlocks (Suc block)
          (block_step input inputWords chunkStart chunkEnd isLastChunk numBlocks block l)
      else l)"
  by pat_completeness auto
termination
  by (relation "measure (\<lambda>(input, inputWords, chunkStart, chunkEnd, isLastChunk, numBlocks, block, l).
                           numBlocks - block)") auto

text \<open>
  What one iteration of \<open>while (offset < totalLen)\<close> does before the merges: the chunk
  from \<open>offset\<close> is compressed into the stack slot at \<open>stackPos\<close>.
  \<open>Math.ceil(chunkLen / BLOCK_LEN)\<close> is \<open>(chunkLen + 63) div 64\<close>.
\<close>

definition chunk_step ::
  "u8array \<Rightarrow> u32 list option \<Rightarrow> nat \<Rightarrow> nat \<Rightarrow> hash_locals \<Rightarrow> js_error option \<times> hash_locals" where
  "chunk_step input inputWords totalLen offset l =
     (let chunkStart = offset;
          chunkEnd = min (offset + CHUNK_LEN) totalLen;
          chunkLen = chunkEnd - chunkStart;
          isLastChunk = (chunkEnd = totalLen)
      in case ta_set (l_stack l) IV (l_stackPos l) of
           Inl e \<Rightarrow> (Some e, l)
         | Inr st \<Rightarrow>
             (let numBlocks = (chunkLen + (BLOCK_LEN - 1)) div BLOCK_LEN;
                  l1 = block_loop input inputWords chunkStart chunkEnd isLastChunk numBlocks 0
                         (l\<lparr>l_stack := st\<rparr>);
                  l2 = l1\<lparr>l_stackPos := l_stackPos l1 + 8, l_chunkCounter := l_chunkCounter l1 + 1\<rparr>
              in if \<not> isLastChunk then merge_while (int (l_chunkCounter l2)) l2 else (None, l2)))"

text \<open>\<open>while (offset < totalLen)\<close>, the scalar path.\<close>

function scalar_loop ::
  "u8array \<Rightarrow> u32 list option \<Rightarrow> nat \<Rightarrow> nat \<Rightarrow> hash_locals \<Rightarrow> js_error option \<times> hash_locals" where
  "scalar_loop input inputWords totalLen offset l =
     (if offset < totalLen then
        (case chunk_step input inputWords totalLen offset l of
           (Some e, l') \<Rightarrow> (Some e, l')
         | (None, l') \<Rightarrow> scalar_loop input inputWords totalLen (min (offset + CHUNK_LEN) totalLen) l')
      else (None, l))"
  by pat_completeness auto
termination
  by (relation "measure (\<lambda>(input, inputWords, totalLen, offset, l). totalLen - offset)")
     (auto simp: CHUNK_LEN_def)

text \<open>
  \<open>for (let i = 0; i < 4; i++)\<close> of the SIMD path: the four chaining values are put on
  the stack one at a time, each followed by its merges. \<open>lastGroup\<close> is
  \<open>offset + 4 * CHUNK_LEN >= totalLen\<close>.
\<close>

function simd_for :: "u32 list list \<Rightarrow> bool \<Rightarrow> nat \<Rightarrow> hash_locals \<Rightarrow> js_error option \<times> hash_locals" where
  "simd_for cvs lastGroup i l =
     (if i < 4 then
        (case ta_set (l_stack l) (cvs ! i) (l_stackPos l) of
           Inl e \<Rightarrow> (Some e, l)
         | Inr st \<Rightarrow>
             (case merge_while_simd (lastGroup \<and> i = 3) (int (l_chunkCounter l + 1))
                     (l\<lparr>l_stack := st, l_stackPos := l_stackPos l + 8,
                        l_chunkCounter := l_chunkCounter l + 1\<rparr>) of
                (Some e, l') \<Rightarrow> (Some e, l')
              | (None, l') \<Rightarrow> simd_for cvs lastGroup (Suc i) l'))
      else (None, l))"
  by pat_completeness auto
termination
  by (relation "measure (\<lambda>(cvs, lastGroup, i, l). 4 - i)") auto

text \<open>
  \<open>while (offset + 4 * CHUNK_LEN <= totalLen)\<close>; the result carries the offset the
  scalar path starts from.
\<close>

function simd_loop ::
  "u8array \<Rightarrow> nat \<Rightarrow> nat \<Rightarrow> hash_locals \<Rightarrow> js_error option \<times> nat \<times> hash_locals" where
  "simd_loop input totalLen offset l =
     (if offset + 4 * CHUNK_LEN \<le> totalLen then
        (case processChunks4xSimd (l_ms l) input offset (l_chunkCounter l) of
           (Some e, ms') \<Rightarrow> (Some e, offset, l\<lparr>l_ms := ms'\<rparr>)
         | (None, ms') \<Rightarrow>
             (case simd_for (simdCvs ms') (offset + 4 * CHUNK_LEN \<ge> totalLen) 0 (l\<lparr>l_ms := ms'\<rparr>) of
                (Some e, l') \<Rightarrow> (Some e, offset, l')
              | (None, l') \<Rightarrow> simd_loop input totalLen (offset + 4 * CHUNK_LEN) l'))
      else (None, offset, l))"
  by pat_completeness auto
termination
  by (relation "measure (\<lambda>(input, totalLen, offset, l). totalLen - offset)")
     (auto simp: CHUNK_LEN_def)

text \<open>
  The final merges: \<open>while (stackPos > 8) { stackPos -= 16; const isRoot = stackPos === 0;
  compress(IV, 0, stack, stackPos, isRoot ? out : stack, isRoot ? 0 : stackPos, true, 0,
  BLOCK_LEN, flags | PARENT | (isRoot ? ROOT : 0)); if (!isRoot) stackPos += 8 }\<close>.
\<close>

definition root_merge :: "hash_locals \<Rightarrow> u32 list \<Rightarrow> hash_locals \<times> u32 list" where
  "root_merge l out =
     (log_call (0, BLOCK_LEN, hash_flags OR PARENT OR ROOT) (l\<lparr>l_stackPos := 0\<rparr>),
      compress IV 0 (l_stack l) 0 out 0 True 0 BLOCK_LEN (hash_flags OR PARENT OR ROOT))"

function final_merges :: "hash_locals \<Rightarrow> u32 list \<Rightarrow> js_error option \<times> hash_locals \<times> u32 list" where
  "final_merges l out =
     (if l_stackPos l > 8 then
        (if l_stackPos l < 16 then (Some BadState, l, out)
         else if l_stackPos l - 16 = 0 then
           (case root_merge l out of (l', out') \<Rightarrow> final_merges l' out')
         else final_merges (parent_merge l) out)
      else (None, l, out))"
  by pat_completeness auto
termination
  by (relation "measure (\<lambda>(l, out). l_stackPos l)")
     (auto simp: parent_merge_def log_call_def root_merge_def Let_def)


text \<open>
  \<open>Math.ceil(Math.log2(n))\<close> for a positive integer \<open>n\<close>, taken as the exact value
  (the least \<open>k\<close> with \<open>n \<le> 2 ^ k\<close>); only the capacity of the stack depends on it.
\<close>

function ceil_log2 :: "nat \<Rightarrow> nat" where
  "ceil_log2 n = (if n \<le> 1 then 0 else Suc (ceil_log2 ((n + 1) div 2)))"
  by pat_completeness auto
termination
  by (relation "measure (\<lambda>n. n)") auto

text \<open>
  \<open>hash\<close> for a non-empty input and at most 32 output bytes, from \<open>const numChunks\<close>
  on: the SIMD path, the scalar path and the final merges. The result is the error
  thrown, if any, with the local variables and the eight words of \<open>out\<close>.
\<close>

definition hash_tree ::
  "module_state \<Rightarrow> u8array \<Rightarrow> u32 list option \<Rightarrow> js_error option \<times> hash_locals \<times> u32 list" where
  "hash_tree ms input inputWords =
     (let totalLen = length (bytes input);
          numChunks = (totalLen + (CHUNK_LEN - 1)) div CHUNK_LEN;
          maxDepth = ceil_log2 (numChunks + 1) + 2;
          l0 = (case getCvStack ms (maxDepth * 8) of
                  (st, ms1) \<Rightarrow> \<lparr>l_stack = st, l_stackPos = 0, l_chunkCounter = 0, l_ms = ms1\<rparr>);
          out = replicate 8 0
      in case (if wasmSimdEnabled ms \<and> totalLen \<ge> 4 * CHUNK_LEN
               then simd_loop input totalLen 0 l0 else (None, 0, l0)) of
           (Some e, offset, l1) \<Rightarrow> (Some e, l1, out)
         | (None, offset, l1) \<Rightarrow>
             (case scalar_loop input inputWords totalLen offset l1 of
                (Some e, l2) \<Rightarrow> (Some e, l2, out)
              | (None, l2) \<Rightarrow>
                  if l_chunkCounter l2 = 1 then
                    (if length (l_stack l2) < 8 then (Some RangeError, l2, out)
                     else (None, l2, wr out 0 (take 8 (l_stack l2))))
                  else final_merges l2 out))"

text \<open>
  \<open>hash(input, outputLen)\<close>: the bytes returned or the error thrown, and the module
  state afterwards. \<open>outputLen = outputLen || 32\<close> makes 0 (and a missing argument,
  also written 0 here) 32. The stack of the call is the cached array itself.
\<close>

definition hash :: "module_state \<Rightarrow> js_input \<Rightarrow> nat \<Rightarrow> (js_error + u8 list) \<times> module_state" where
  "hash ms input0 outputLen0 =
     (let input = to_u8array input0;
          outputLen = (if outputLen0 = 0 then 32 else outputLen0)
      in if outputLen > 32 then
           (case update createHasher (Bytes input) of
              Inl e \<Rightarrow> (Inl e, ms)
            | Inr h \<Rightarrow>
                (case finalize h outputLen of
                   (r, h') \<Rightarrow> (r, ms\<lparr>calls := calls ms @ hlog h'\<rparr>)))
         else
           (case make_inputWords input of
              Inl e \<Rightarrow> (Inl e, ms)
            | Inr inputWords \<Rightarrow>
                if length (bytes input) = 0 then
                  (let bw = fill0 (blockWords ms);
                       out = compress IV 0 bw 0 (replicate 8 0) 0 True 0 0
                               (CHUNK_START OR CHUNK_END OR ROOT)
                   in (Inr (take outputLen (wordsToBytes out)),
                       ms\<lparr>blockWords := bw,
                          calls := calls ms @ [(0, 0, CHUNK_START OR CHUNK_END OR ROOT)]\<rparr>))
                else
                  (case hash_tree ms input inputWords of
                     (Some e, l, out) \<Rightarrow> (Inl e, (l_ms l)\<lparr>cvStack_m := Some (l_stack l)\<rparr>)
                   | (None, l, out) \<Rightarrow>
                       (Inr (take outputLen (wordsToBytes out)),
                        (l_ms l)\<lparr>cvStack_m := Some (l_stack l)\<rparr>))))"


section \<open>The tree the two implementations compute\<close>

text \<open>
  The functions of this section are not in the source. They describe, on the bytes of the
  whole input, the chaining values and the root node that the loops of \<open>hash\<close> and of
  \<open>Hasher\<close> are proved to compute.
\<close>

text \<open>The sixteen little-endian words of a block of at most 64 bytes, padded with zeros.\<close>

definition block_words :: "u8 list \<Rightarrow> u32 list" where
  "block_words bs = map (\<lambda>j. le32 bs (4 * j)) [0..<16]"

text \<open>
  The chaining value of a chunk (bytes \<open>bs\<close>, counter \<open>ctr\<close>) after its first \<open>b\<close>
  blocks, none of them the last block of the chunk.
\<close>

fun chunk_chain :: "u32 \<Rightarrow> nat \<Rightarrow> u8 list \<Rightarrow> nat \<Rightarrow> u32 list \<Rightarrow> u32 list" where
  "chunk_chain base ctr bs 0 v = v"
| "chunk_chain base ctr bs (Suc b) v =
     take 8 (compress_core (chunk_chain base ctr bs b v) (block_words (take 64 (drop (64 * b) bs)))
               ctr 64 (base OR (if b = 0 then CHUNK_START else 0)))"

text \<open>
  The last compression of a chunk of 1 to 1024 bytes: chaining value, message words,
  block length and flags (without \<open>ROOT\<close>).
\<close>

definition chunk_node :: "u32 list \<Rightarrow> u32 \<Rightarrow> nat \<Rightarrow> u8 list \<Rightarrow> root_node" where
  "chunk_node key base ctr bs =
     (let b = (length bs - 1) div 64 in
      (chunk_chain base ctr bs b key, block_words (drop (64 * b) bs), length bs - 64 * b,
       base OR (if b = 0 then CHUNK_START else 0) OR CHUNK_END))"

definition chunk_cv :: "u32 list \<Rightarrow> u32 \<Rightarrow> nat \<Rightarrow> u8 list \<Rightarrow> u32 list" where
  "chunk_cv key base ctr bs =
     (case chunk_node key base ctr bs of (v, m, bl, f) \<Rightarrow> take 8 (compress_core v m ctr bl f))"

definition parent_cv :: "u32 list \<Rightarrow> u32 \<Rightarrow> u32 list \<Rightarrow> u32 list \<Rightarrow> u32 list" where
  "parent_cv key base left right = take 8 (compress_core key (left @ right) 0 64 (base OR PARENT))"

text \<open>Number of trailing zero bits and number of one bits of a natural number.\<close>

function trailing_zeros :: "nat \<Rightarrow> nat" where
  "trailing_zeros n = (if n = 0 \<or> odd n then 0 else Suc (trailing_zeros (n div 2)))"
  by pat_completeness auto
termination
  by (relation "measure (\<lambda>n. n)") auto

function popcount :: "nat \<Rightarrow> nat" where
  "popcount n = (if n = 0 then 0 else n mod 2 + popcount (n div 2))"
  by pat_completeness auto
termination
  by (relation "measure (\<lambda>n. n)") auto

text \<open>\<open>k\<close> merges of the two topmost chaining values of a stack (top first).\<close>

fun merge_n :: "u32 list \<Rightarrow> u32 \<Rightarrow> nat \<Rightarrow> u32 list list \<Rightarrow> u32 list list" where
  "merge_n key base (Suc k) (right # left # rest) =
     merge_n key base k (parent_cv key base left right # rest)"
| "merge_n key base k st = st"

text \<open>The chunk with index \<open>i\<close> of the input.\<close>

definition chunk_at :: "u8 list \<Rightarrow> nat \<Rightarrow> u8 list" where
  "chunk_at xs i = take 1024 (drop (1024 * i) xs)"

text \<open>
  The stack after \<open>c\<close> complete chunks of \<open>xs\<close> when more input follows: each chaining
  value is pushed and followed by as many merges as its new count has trailing zeros.
\<close>

fun tree_stack :: "u32 list \<Rightarrow> u32 \<Rightarrow> u8 list \<Rightarrow> nat \<Rightarrow> u32 list list" where
  "tree_stack key base xs 0 = []"
| "tree_stack key base xs (Suc c) =
     merge_n key base (trailing_zeros (Suc c))
       (chunk_cv key base c (chunk_at xs c) # tree_stack key base xs c)"

text \<open>At the end the stack is folded from its top until two chaining values are left.\<close>

fun collapse :: "u32 list \<Rightarrow> u32 \<Rightarrow> u32 list list \<Rightarrow> u32 list list" where
  "collapse key base (right # left # x # rest) =
     collapse key base (parent_cv key base left right # x # rest)"
| "collapse key base st = st"

text \<open>The root node of an input under a key and base flags.\<close>

definition tree_root :: "u32 list \<Rightarrow> u32 \<Rightarrow> u8 list \<Rightarrow> root_node" where
  "tree_root key base xs =
     (if xs = [] then (key, replicate 16 0, 0, base OR CHUNK_START OR CHUNK_END OR ROOT)
      else
        (let c = (length xs - 1) div 1024 in
         if c = 0 then
           (case chunk_node key base 0 xs of (v, m, bl, f) \<Rightarrow> (v, m, bl, f OR ROOT))
         else
           (case collapse key base (chunk_cv key base c (chunk_at xs c) # tree_stack key base xs c) of
              [right, left] \<Rightarrow> (key, left @ right, 64, base OR PARENT OR ROOT)
            | _ \<Rightarrow> (key, [], 64, base OR PARENT OR ROOT))))"

text \<open>The first 32 bytes the root node gives: the digest.\<close>

definition tree_digest :: "u8 list \<Rightarrow> u8 list" where
  "tree_digest xs =
     (case tree_root IV 0 xs of (v, m, bl, f) \<Rightarrow> wordsToBytes (take 8 (compress_core v m 0 bl f)))"


section \<open>Strings are hashed through their UTF-8 encoding\<close>

text \<open>
  Claim C10. \<open>hash\<close> and \<open>Hasher.update\<close> accept a JavaScript string as well as a byte
  array: for every string, in every module state, with every requested output length and
  for every hasher, the result for the string is the result for the \<open>Uint8Array\<close> that
  \<open>TextEncoder\<close> produces from it, that is, for its UTF-8 encoding.
\<close>

theorem string_input_is_utf8:
  "hash ms (Str str) outputLen = hash ms (Bytes (TextEncoder_encode str)) outputLen \<and>
   update h (Str str) = update h (Bytes (TextEncoder_encode str))"
  by (simp add: hash_def update_def to_u8array_def)

end
